theory Spec2Isabelle
  imports Complex_Main
begin

section \<open>The flashcard document\<close>

text \<open>
  The Flashcard schema of the model file (the mongoose schema with the fields
  \<open>user\<close>, \<open>subject\<close>, \<open>question\<close>, \<open>answer\<close>, \<open>topic\<close>, \<open>difficulty\<close>, \<open>tags\<close>,
  \<open>stats\<close>, \<open>reviewData\<close>, \<open>aiGenerated\<close>, \<open>isActive\<close>).

  A JavaScript \<open>Number\<close> is modelled as a \<open>real\<close>: the schema types every counter, the
  interval and the ease factor as \<open>Number\<close> and enforces no integrality, so the model does
  not either. \<open>NaN\<close> and the infinities are outside the model. The rounding of IEEE
  binary64 arithmetic is modelled in the product of the interval and the ease factor
  and in the quotient and the product of \<open>successRate\<close>, whose results \<open>Math.round\<close>
  takes to an integer. Everything else is exact: the sums of the counters and the sum
  and the mean of the rates, as they are in binary64 for integers below \<open>2 ^ 53\<close>; the
  sum that updates the ease factor and the running mean of the response time, where
  binary64 may differ in the last bit.

  A \<open>Date\<close> holds a time value, the number of milliseconds since the epoch, or is an
  Invalid Date. An \<open>ObjectId\<close> is a natural number. The document's \<open>_id\<close> is the key
  under which the collection holds it.
\<close>

datatype difficulty = easy | medium | hard

datatype date = Date real | InvalidDate

text \<open>The numeral \<open>0\<close> read as a \<open>Date\<close> is the epoch, \<open>new Date(0)\<close>.\<close>

instantiation date :: zero
begin

definition zero_date :: date where
  "zero_date = Date 0"

instance ..

end

record stats =
  timesReviewed :: real
  correctAnswers :: real
  incorrectAnswers :: real
  lastReviewed :: "real option"
  averageResponseTime :: real

record reviewData =
  interval :: real
  easeFactor :: real
  nextReview :: date
  reviewCount :: real

record flashcard =
  user :: nat
  subject :: nat
  question :: string
  answer :: string
  topic :: string
  difficulty :: difficulty
  tags :: "string list"
  stats :: stats
  reviewData :: reviewData
  aiGenerated :: bool
  isActive :: bool

text \<open>\<open>Math.round\<close>: the nearest integer, a tie going up.\<close>

definition Math_round :: "real \<Rightarrow> real" where
  "Math_round x = of_int \<lfloor>x + 1 / 2\<rfloor>"

subsection \<open>Binary64 rounding\<close>

text \<open>
  The result of a \<open>Number\<close> multiplication or division is the exact result rounded to
  the nearest binary64 value, a tie going to the even significand. \<open>exponent x\<close> is the
  integer \<open>e\<close> with \<open>2 ^ e \<le> x < 2 ^ (e + 1)\<close> for a positive \<open>x\<close>; the unit in the last
  place of a value with that exponent is \<open>2 ^ (e - 52)\<close>, and below \<open>2 ^ (- 1022)\<close> it
  stays \<open>2 ^ (- 1074)\<close> (the subnormal numbers). A result of magnitude \<open>2 ^ 1024\<close> or
  more is an infinity in JavaScript and is outside the model.
\<close>

function log2floor :: "int \<Rightarrow> nat" where
  "log2floor n = (if n < 2 then 0 else Suc (log2floor (n div 2)))"
  by pat_completeness auto
termination
  by (relation "measure nat") auto

definition exponent :: "real \<Rightarrow> int" where
  "exponent x =
     (if 1 \<le> x then int (log2floor \<lfloor>x\<rfloor>)
      else (let l = int (log2floor \<lfloor>1 / x\<rfloor>)
            in if x * 2 powi l = 1 then - l else - l - 1))"

definition roundTiesToEven :: "real \<Rightarrow> int" where
  "roundTiesToEven y =
     (let f = \<lfloor>y\<rfloor>; d = y - of_int f
      in if d < 1 / 2 then f
         else if 1 / 2 < d then f + 1
         else if even f then f else f + 1)"

definition fl :: "real \<Rightarrow> real" where
  "fl x =
     (if x = 0 then 0
      else (let e = max (exponent \<bar>x\<bar>) (- 1022);
                u = 2 powi (e - 52)
            in of_int (roundTiesToEven (x / u)) * u))"

subsection \<open>The time value of \<open>new Date(time)\<close>\<close>

text \<open>
  \<open>TimeClip\<close> of the language standard: a time of magnitude above \<open>8.64e15\<close>
  milliseconds gives an Invalid Date, any other time is cut to an integer.
\<close>

definition TimeClip :: "real \<Rightarrow> date" where
  "TimeClip time =
     (if \<bar>time\<bar> > 8640000000000000 then InvalidDate
      else Date (of_int (if 0 \<le> time then \<lfloor>time\<rfloor> else \<lceil>time\<rceil>)))"

subsection \<open>The virtual \<open>successRate\<close>\<close>

definition successRate :: "flashcard \<Rightarrow> real" where
  "successRate this =
     (if timesReviewed (stats this) = 0 then 0
      else Math_round
             (fl (fl (correctAnswers (stats this) / timesReviewed (stats this)) * 100)))"

subsection \<open>The method \<open>updateReviewData\<close>\<close>

text \<open>
  The method reads the clock twice: \<open>new Date()\<close> for \<open>lastReviewed\<close> and \<open>Date.now()\<close>
  for \<open>nextReview\<close>. Both readings are parameters, \<open>tDate\<close> and \<open>tNow\<close>. Each assignment
  of the source is one binding of the \<open>let\<close> chain, in the source's order. The value is
  the document as the method leaves it in memory; the final \<open>this.save()\<close> is the store
  update of the route below.

  The product of the interval and the ease factor is rounded to binary64 before
  \<open>Math.round\<close>, as the \<open>Number\<close> multiplication does. The sum that updates the ease
  factor is exact: after a review the ease factor of the code can differ from the
  model's in the last bit, and a later product can then fall on the other side of a
  tie (from a new card, the qualities 3, 2, 3, 3, 4, 3, 3 end at the interval 48 in
  the code and at 49 in the model). What is stated below about the interval is about
  one review, in terms of the interval and the ease factor the card holds.

  The argument of \<open>new Date\<close> is computed exactly. For a clock reading and an interval
  that are integers, as \<open>Date.now()\<close> and every interval the method assigns are, binary64
  computes the same time value whenever it lies in the range of \<open>Date\<close>, and a time
  beyond the range also when it rounds.
\<close>

definition updateReviewData :: "real \<Rightarrow> real \<Rightarrow> real \<Rightarrow> flashcard \<Rightarrow> flashcard" where
  "updateReviewData quality tDate tNow this =
     (let st = stats this;
          rd = reviewData this;
          st = st\<lparr>timesReviewed := timesReviewed st + 1\<rparr>;
          st = st\<lparr>lastReviewed := Some tDate\<rparr>;
          rd = rd\<lparr>reviewCount := reviewCount rd + 1\<rparr>;
          (st, rd) =
            (if quality \<ge> 3 then
               (let st = st\<lparr>correctAnswers := correctAnswers st + 1\<rparr>;
                    rd = (if reviewCount rd = 1 then rd\<lparr>interval := 1\<rparr>
                          else if reviewCount rd = 2 then rd\<lparr>interval := 6\<rparr>
                          else rd\<lparr>interval := Math_round (fl (interval rd * easeFactor rd))\<rparr>);
                    rd = rd\<lparr>easeFactor :=
                           easeFactor rd + (0.1 - (5 - quality) * (0.08 + (5 - quality) * 0.02))\<rparr>
                in (st, rd))
             else
               (let st = st\<lparr>incorrectAnswers := incorrectAnswers st + 1\<rparr>;
                    rd = rd\<lparr>reviewCount := 0\<rparr>;
                    rd = rd\<lparr>interval := 1\<rparr>
                in (st, rd)));
          rd = (if easeFactor rd < 1.3 then rd\<lparr>easeFactor := 1.3\<rparr> else rd);
          rd = rd\<lparr>nextReview := TimeClip (tNow + interval rd * 24 * 60 * 60 * 1000)\<rparr>
      in this\<lparr>stats := st, reviewData := rd\<rparr>)"

section \<open>The route \<open>POST /card/:id/review\<close>\<close>

text \<open>
  The request body carries \<open>quality\<close> and \<open>responseTime\<close>; a field that is absent reads
  as \<open>undefined\<close>, here \<open>None\<close>. Only numeric fields are modelled. The collection is a map
  from \<open>_id\<close> to document. The two early returns of the handler are the two errors:
  status 400 "Quality must be between 0 and 5" is \<open>InvalidQuality\<close>, status 404
  "Flashcard not found" is \<open>NotFound\<close>. The handler's \<open>catch\<close> (status 500) is outside the
  model: a failure of the database, and the save the library refuses because
  \<open>nextReview\<close> is an Invalid Date, after which the handler stores nothing. The model
  stores the document the method leaves in every case.
\<close>

record body =
  quality :: "real option"
  responseTime :: "real option"

datatype error = InvalidQuality | NotFound

type_synonym collection = "nat \<rightharpoonup> flashcard"

text \<open>\<open>Flashcard.findOne({_id, user, isActive: true})\<close>.\<close>

definition findOne :: "collection \<Rightarrow> nat \<Rightarrow> nat \<Rightarrow> flashcard option" where
  "findOne db cid uid =
     (case db cid of
        None \<Rightarrow> None
      | Some c \<Rightarrow> if user c = uid \<and> isActive c then Some c else None)"

text \<open>
  The handler: \<open>uid\<close> is \<open>req.user.id\<close>, \<open>cid\<close> is \<open>req.params.id\<close>. The guard
  \<open>if (responseTime)\<close> is JavaScript truthiness: \<open>undefined\<close> and \<open>0\<close> are falsy, every
  other number of the model is truthy. The result is the response and the collection
  after the request. The division by \<open>timesReviewed + 1\<close> is by zero only for a card
  with \<open>timesReviewed = -1\<close>, where JavaScript gives an infinity or \<open>NaN\<close> and HOL
  gives 0; no counter of the application takes that value.
\<close>

definition review :: "collection \<Rightarrow> nat \<Rightarrow> nat \<Rightarrow> body \<Rightarrow> real \<Rightarrow> real
    \<Rightarrow> (error + flashcard) \<times> collection" where
  "review db uid cid req tDate tNow =
     (case quality req of
        None \<Rightarrow> (Inl InvalidQuality, db)
      | Some q \<Rightarrow>
          if q < 0 \<or> q > 5 then (Inl InvalidQuality, db)
          else
            (case findOne db cid uid of
               None \<Rightarrow> (Inl NotFound, db)
             | Some flashcard \<Rightarrow>
                 (let flashcard =
                        (case responseTime req of
                           None \<Rightarrow> flashcard
                         | Some rt \<Rightarrow>
                             if rt \<noteq> 0 then
                               (let newTotalTime =
                                      averageResponseTime (stats flashcard)
                                        * timesReviewed (stats flashcard) + rt
                                in flashcard\<lparr>stats := (stats flashcard)
                                     \<lparr>averageResponseTime :=
                                        newTotalTime / (timesReviewed (stats flashcard) + 1)\<rparr>\<rparr>)
                             else flashcard);
                      flashcard = updateReviewData q tDate tNow flashcard
                  in (Inr flashcard, db(cid \<mapsto> flashcard)))))"

section \<open>The analytics route: \<open>flashcardStats.averageSuccessRate\<close>\<close>

text \<open>
  \<open>averageSuccessRate\<close> starts at 0 and is assigned only when the list of the user's
  active flashcards is not empty; \<open>reduce\<close> with the initial value 0 is \<open>foldl\<close>.
\<close>

definition averageSuccessRate :: "flashcard list \<Rightarrow> real" where
  "averageSuccessRate flashcards =
     (if length flashcards > 0 then
        (let successRates = map successRate flashcards
         in Math_round (foldl (\<lambda>sum rate. sum + rate) 0 successRates
                          / real (length successRates)))
      else 0)"

text \<open>
  The mean the specification describes, for comparison with the route's: the mean of
  \<open>successRate\<close> over the cards with \<open>timesReviewed > 0\<close> only, rounded, and 0 when no
  card has been reviewed.
\<close>

definition spec_averageSuccessRate :: "flashcard list \<Rightarrow> real" where
  "spec_averageSuccessRate flashcards =
     (let reviewedCards = filter (\<lambda>card. timesReviewed (stats card) > 0) flashcards
      in if reviewedCards = [] then 0
         else Math_round (sum_list (map successRate reviewedCards)
                            / real (length reviewedCards)))"

section \<open>A new document\<close>

text \<open>
  \<open>new Flashcard({user, subject, question, answer, topic})\<close> with the defaults of the
  schema: \<open>difficulty\<close> medium, no tags, every counter of \<open>stats\<close> 0 and \<open>lastReviewed\<close>
  absent, \<open>interval\<close> 1, \<open>easeFactor\<close> 2.5, \<open>nextReview\<close> the clock reading \<open>now\<close> (the
  default \<open>Date.now\<close>), \<open>reviewCount\<close> 0, \<open>aiGenerated\<close> false, \<open>isActive\<close> true.
\<close>

definition newFlashcard :: "nat \<Rightarrow> nat \<Rightarrow> string \<Rightarrow> string \<Rightarrow> string \<Rightarrow> real \<Rightarrow> flashcard" where
  "newFlashcard u s qn an tp now =
     \<lparr>user = u, subject = s, question = qn, answer = an, topic = tp,
      difficulty = medium, tags = [],
      stats = \<lparr>timesReviewed = 0, correctAnswers = 0, incorrectAnswers = 0,
               lastReviewed = None, averageResponseTime = 0\<rparr>,
      reviewData = \<lparr>interval = 1, easeFactor = 2.5, nextReview = TimeClip now,
                    reviewCount = 0\<rparr>,
      aiGenerated = False, isActive = True\<rparr>"

section \<open>Facts about binary64 rounding\<close>

lemma log2floor_bounds:
  "0 < n \<Longrightarrow> 2 ^ log2floor n \<le> n \<and> n < 2 ^ Suc (log2floor n)"
proof (induction n rule: log2floor.induct)
  case (1 n)
  show ?case
  proof (cases "n < 2")
    case True
    with "1.prems" have "n = 1" by simp
    then show ?thesis by simp
  next
    case False
    then have "0 < n div 2" by simp
    with "1.IH" False have ih: "2 ^ log2floor (n div 2) \<le> n div 2"
      "n div 2 < 2 ^ Suc (log2floor (n div 2))" by simp_all
    have s: "log2floor n = Suc (log2floor (n div 2))" using False by simp
    from ih(1) have "2 * 2 ^ log2floor (n div 2) \<le> n" by linarith
    moreover from ih(2) have "n < 2 * 2 ^ Suc (log2floor (n div 2))" by linarith
    ultimately show ?thesis unfolding s by simp
  qed
qed

lemma real_log2floor_bounds:
  assumes "0 < n"
  shows "(2::real) ^ log2floor n \<le> of_int n" and "of_int n + 1 \<le> (2::real) ^ Suc (log2floor n)"
proof -
  from log2floor_bounds [OF assms]
  have b: "2 ^ log2floor n \<le> n" "n + 1 \<le> 2 ^ Suc (log2floor n)" by simp_all
  from b(1) have "(of_int (2 ^ log2floor n) :: real) \<le> of_int n"
    by (simp only: of_int_le_iff)
  then show "(2::real) ^ log2floor n \<le> of_int n" by simp
  from b(2) have "(of_int (n + 1) :: real) \<le> of_int (2 ^ Suc (log2floor n))"
    by (simp only: of_int_le_iff)
  then show "of_int n + 1 \<le> (2::real) ^ Suc (log2floor n)" by simp
qed

lemma powi2_less_cancel:
  assumes "(2::real) powi a < 2 powi b"
  shows "a < b"
proof (rule ccontr)
  assume "\<not> a < b"
  then have "b \<le> a" by simp
  then have "(2::real) powi b \<le> 2 powi a"
    by (intro power_int_increasing) simp_all
  with assms show False by simp
qed

text \<open>\<open>exponent\<close> is the binary exponent of a positive number, and the only one.\<close>

lemma exponent_bounds:
  assumes "0 < x"
  shows "2 powi exponent x \<le> x \<and> x < 2 powi (exponent x + 1)"
proof (cases "1 \<le> x")
  case True
  define n where "n = \<lfloor>x\<rfloor>"
  define l where "l = log2floor n"
  have n: "0 < n" "of_int n \<le> x" "x < of_int n + 1"
    unfolding n_def using True by (simp, linarith, linarith)
  from real_log2floor_bounds [OF n(1)]
  have b: "(2::real) ^ l \<le> of_int n" "of_int n + 1 \<le> (2::real) ^ Suc l"
    by (simp_all add: l_def)
  have e: "exponent x = int l" using True by (simp add: exponent_def n_def l_def)
  have e1: "int l + 1 = int (Suc l)" by simp
  have lo: "(2::real) ^ l \<le> x" using b(1) n(2) by (rule order_trans)
  have hi: "x < 2 ^ Suc l" using n(3) b(2) by (rule less_le_trans)
  show ?thesis unfolding e e1 power_int_of_nat using lo hi by (rule conjI)
next
  case False
  define y where "y = 1 / x"
  define n where "n = \<lfloor>y\<rfloor>"
  define l where "l = log2floor n"
  have y: "1 < y" using False assms by (simp add: y_def)
  have n: "0 < n" "of_int n \<le> y" "y < of_int n + 1"
    unfolding n_def using y by (simp, linarith, linarith)
  from real_log2floor_bounds [OF n(1)]
  have b: "(2::real) ^ l \<le> of_int n" "of_int n + 1 \<le> (2::real) ^ Suc l"
    by (simp_all add: l_def)
  have lo: "2 ^ l \<le> y" using b(1) n(2) by (rule order_trans)
  have hi: "y < 2 ^ Suc l" using n(3) b(2) by (rule less_le_trans)
  have x1: "x * 2 ^ l \<le> 1"
    using lo assms by (simp add: y_def field_simps)
  have x2: "1 < x * 2 ^ Suc l"
    using hi assms by (simp add: y_def field_simps)
  have m: "2 powi (- int l) = 1 / (2::real) ^ l"
    by (simp add: power_int_minus_divide)
  have m1: "2 powi (- int l - 1) = 1 / (2::real) ^ Suc l"
  proof -
    have "- int l - 1 = - int (Suc l)" by simp
    then show ?thesis by (simp only: power_int_minus_divide power_int_of_nat)
  qed
  have m2: "2 powi (- int l + 1) = 2 / (2::real) ^ l"
    by (subst power_int_add) (simp_all add: power_int_minus_divide)
  show ?thesis
  proof (cases "x * 2 powi int l = 1")
    case True
    then have e: "exponent x = - int l"
      using False by (simp add: exponent_def Let_def y_def n_def l_def)
    from True have "x * 2 ^ l = 1" by simp
    then have "x = 1 / 2 ^ l" by (simp add: field_simps)
    moreover have "1 / (2::real) ^ l < 2 / 2 ^ l"
      by (intro divide_strict_right_mono) simp_all
    ultimately show ?thesis unfolding e m m2 by simp
  next
    case F: False
    then have e: "exponent x = - int l - 1"
      using False by (simp add: exponent_def Let_def y_def n_def l_def)
    have e1: "- int l - 1 + 1 = - int l" by simp
    from F have "x * 2 ^ l \<noteq> 1" by simp
    with x1 have "x * 2 ^ l < 1" by simp
    then have hi': "x < 1 / 2 ^ l" by (simp add: field_simps)
    from x2 have lo': "1 / 2 ^ Suc l \<le> x" by (simp add: field_simps)
    show ?thesis unfolding e e1 m m1 using lo' hi' by (rule conjI)
  qed
qed

lemma exponent_eqI:
  assumes "0 < x" and "2 powi e \<le> x" and "x < 2 powi (e + 1)"
  shows "exponent x = e"
proof -
  from exponent_bounds [OF assms(1)]
  have b: "2 powi exponent x \<le> x" "x < 2 powi (exponent x + 1)" by simp_all
  have "(2::real) powi e < 2 powi (exponent x + 1)" using assms(2) b(2) by simp
  then have "e < exponent x + 1" by (rule powi2_less_cancel)
  moreover have "(2::real) powi exponent x < 2 powi (e + 1)" using assms(3) b(1) by simp
  then have "exponent x < e + 1" by (rule powi2_less_cancel)
  ultimately show ?thesis by simp
qed

text \<open>The rounded value of a number whose binary exponent is known.\<close>

lemma fl_eval:
  assumes "x \<noteq> 0" and "2 powi e \<le> \<bar>x\<bar>" and "\<bar>x\<bar> < 2 powi (e + 1)" and "- 1022 \<le> e"
  shows "fl x = of_int (roundTiesToEven (x / 2 powi (e - 52))) * 2 powi (e - 52)"
proof -
  have "exponent \<bar>x\<bar> = e" using assms by (intro exponent_eqI) simp_all
  then show ?thesis using assms(1,4) by (simp add: fl_def Let_def max_def)
qed

lemma roundTiesToEven_of_int: "roundTiesToEven (of_int k) = k"
  by (simp add: roundTiesToEven_def)

lemma floor_le_roundTiesToEven: "\<lfloor>y\<rfloor> \<le> roundTiesToEven y"
  by (simp add: roundTiesToEven_def Let_def)

text \<open>An integer below \<open>2 ^ 53\<close> in magnitude is a binary64 value.\<close>

lemma fl_of_int:
  assumes "\<bar>k\<bar> < 2 ^ 53"
  shows "fl (of_int k) = of_int k"
proof (cases "k = 0")
  case True
  then show ?thesis by (simp add: fl_def)
next
  case False
  define x :: real where "x = of_int k"
  define e where "e = exponent \<bar>x\<bar>"
  have "1 \<le> \<bar>k\<bar>" using False by simp
  then have "(1::real) \<le> of_int \<bar>k\<bar>" by (simp only: of_int_1_le_iff)
  moreover have "(of_int \<bar>k\<bar> :: real) < of_int (2 ^ 53)"
    using assms by (simp only: of_int_less_iff)
  ultimately have x: "1 \<le> \<bar>x\<bar>" "\<bar>x\<bar> < 2 ^ 53" "x \<noteq> 0"
    using False by (simp_all add: x_def)
  have pos: "0 < \<bar>x\<bar>" using x by simp
  from exponent_bounds [OF pos]
  have b: "2 powi e \<le> \<bar>x\<bar>" "\<bar>x\<bar> < 2 powi (e + 1)" by (simp_all add: e_def)
  have "(2::real) powi 0 < 2 powi (e + 1)" using b(2) x(1) by simp
  then have "0 < e + 1" by (rule powi2_less_cancel)
  then have e0: "0 \<le> e" by simp
  have "(2::real) powi e < 2 powi 53" using b(1) x(2) by simp
  then have "e < 53" by (rule powi2_less_cancel)
  then have e52: "e \<le> 52" by simp
  define m where "m = nat (52 - e)"
  have u: "2 powi (e - 52) = 1 / (2::real) ^ m"
  proof -
    have "e - 52 = - int m" using e52 by (simp add: m_def)
    then show ?thesis by (simp only: power_int_minus_divide power_int_of_nat)
  qed
  have q: "x / (1 / 2 ^ m) = of_int (k * 2 ^ m)" by (simp add: x_def)
  have "fl x = of_int (roundTiesToEven (x / 2 powi (e - 52))) * 2 powi (e - 52)"
    using x(3) e0 by (simp add: fl_def Let_def max_def e_def)
  also have "\<dots> = of_int (k * 2 ^ m) * (1 / 2 ^ m)"
    unfolding u q roundTiesToEven_of_int by simp
  also have "\<dots> = x" by (simp add: x_def)
  finally show ?thesis by (simp add: x_def)
qed

lemma fl_1: "fl 1 = 1"
  using fl_of_int [of 1] by simp

lemma fl_100: "fl 100 = 100"
  using fl_of_int [of 100] by simp

text \<open>Rounding does not take a number from 1 or above to below 1.\<close>

lemma fl_ge_1:
  assumes "1 \<le> x"
  shows "1 \<le> fl x"
proof -
  define e where "e = exponent \<bar>x\<bar>"
  have pos: "0 < \<bar>x\<bar>" and ax: "\<bar>x\<bar> = x" and x0: "x \<noteq> 0" using assms by simp_all
  from exponent_bounds [OF pos]
  have b: "2 powi e \<le> x" "x < 2 powi (e + 1)" by (simp_all add: e_def ax)
  have "(2::real) powi 0 < 2 powi (e + 1)" using b(2) assms by simp
  then have "0 < e + 1" by (rule powi2_less_cancel)
  then have e0: "0 \<le> e" by simp
  define u :: real where "u = 2 powi (e - 52)"
  have u0: "0 < u" by (simp add: u_def)
  have f: "fl x = of_int (roundTiesToEven (x / u)) * u"
    using x0 e0 by (simp add: fl_def Let_def max_def e_def u_def)
  have pe: "(2::real) powi e = 2 ^ 52 * u"
    unfolding u_def by (simp add: power_int_diff)
  have "2 ^ 52 * u \<le> x" using b(1) pe by simp
  then have "2 ^ 52 \<le> x / u" using u0 by (simp add: field_simps)
  then have "(2::int) ^ 52 \<le> \<lfloor>x / u\<rfloor>" by (simp add: le_floor_iff)
  then have "(2::int) ^ 52 \<le> roundTiesToEven (x / u)"
    using floor_le_roundTiesToEven [of "x / u"] by (rule order_trans)
  then have "(2::real) ^ 52 \<le> of_int (roundTiesToEven (x / u))"
    by (metis of_int_le_iff of_int_numeral of_int_power)
  then have a: "2 ^ 52 * u \<le> of_int (roundTiesToEven (x / u)) * u"
    using u0 by (intro mult_right_mono) simp_all
  have "1 \<le> (2::real) powi e" using e0 by (simp add: power_int_nonneg_exp)
  then have "1 \<le> 2 ^ 52 * u" by (simp only: pe)
  then show ?thesis unfolding f using a by (rule order_trans)
qed

section \<open>Facts about the time value\<close>




section \<open>Facts about the method and the route\<close>

lemma updateReviewData_fail:
  assumes "q < 3"
  shows "updateReviewData q tDate tNow this =
    this\<lparr>stats := (stats this)
            \<lparr>timesReviewed := timesReviewed (stats this) + 1,
             lastReviewed := Some tDate,
             incorrectAnswers := incorrectAnswers (stats this) + 1\<rparr>,
         reviewData := (reviewData this)
            \<lparr>reviewCount := 0, interval := 1,
             easeFactor := (if easeFactor (reviewData this) < 1.3 then 1.3
                            else easeFactor (reviewData this)),
             nextReview := TimeClip (tNow + 1 * 24 * 60 * 60 * 1000)\<rparr>\<rparr>"
  using assms by (simp add: updateReviewData_def Let_def)

text \<open>The interval and the ease factor a success computes, before the floor.\<close>

lemma updateReviewData_success:
  assumes "3 \<le> q"
  shows "updateReviewData q tDate tNow this =
    (let i = (if reviewCount (reviewData this) + 1 = 1 then 1
              else if reviewCount (reviewData this) + 1 = 2 then 6
              else Math_round (fl (interval (reviewData this) * easeFactor (reviewData this))));
         e = easeFactor (reviewData this) + (0.1 - (5 - q) * (0.08 + (5 - q) * 0.02))
     in this\<lparr>stats := (stats this)
            \<lparr>timesReviewed := timesReviewed (stats this) + 1,
             lastReviewed := Some tDate,
             correctAnswers := correctAnswers (stats this) + 1\<rparr>,
         reviewData := (reviewData this)
            \<lparr>reviewCount := reviewCount (reviewData this) + 1, interval := i,
             easeFactor := (if e < 1.3 then 1.3 else e),
             nextReview := TimeClip (tNow + i * 24 * 60 * 60 * 1000)\<rparr>\<rparr>)"
  using assms by (simp add: updateReviewData_def Let_def)

text \<open>
  A request with a quality in range for a card the caller owns succeeds: the card is
  the one \<open>updateReviewData\<close> returns, run on the card after the response-time step, and
  it is stored under the same id.
\<close>

lemma review_ok:
  assumes "quality req = Some q" and "0 \<le> q" and "q \<le> 5"
    and "findOne db cid uid = Some c"
  shows "review db uid cid req tDate tNow =
    (let c' = updateReviewData q tDate tNow
                (c\<lparr>stats := (stats c)\<lparr>averageResponseTime :=
                   (case responseTime req of
                      None \<Rightarrow> averageResponseTime (stats c)
                    | Some rt \<Rightarrow>
                        if rt \<noteq> 0
                        then (averageResponseTime (stats c) * timesReviewed (stats c) + rt)
                               / (timesReviewed (stats c) + 1)
                        else averageResponseTime (stats c))\<rparr>\<rparr>)
     in (Inr c', db(cid \<mapsto> c')))"
  using assms by (simp add: review_def Let_def split: option.split)

lemma updateReviewData_reviewData_stats:
  "reviewData (updateReviewData q tDate tNow (c\<lparr>stats := s\<rparr>))
     = reviewData (updateReviewData q tDate tNow c)"
proof (cases "q < 3")
  case True
  then show ?thesis by (simp add: updateReviewData_fail)
next
  case False
  then have "3 \<le> q" by simp
  then show ?thesis by (simp add: updateReviewData_success Let_def)
qed

text \<open>
  Whenever a request for a card the caller owns returns a card, its \<open>reviewData\<close> is
  the one the method computes from the card found: the response-time step before the
  method touches \<open>stats\<close> only.
\<close>

lemma review_Inr_reviewData:
  assumes "quality req = Some q" and "findOne db cid uid = Some c"
    and "review db uid cid req tDate tNow = (Inr c', db')"
  shows "reviewData c' = reviewData (updateReviewData q tDate tNow c)"
proof -
  have "\<not> (q < 0 \<or> q > 5)"
    using assms by (auto simp add: review_def)
  then have "0 \<le> q" and "q \<le> 5" by simp_all
  from review_ok [OF assms(1) this assms(2), of tDate tNow] assms(3)
  show ?thesis by (auto simp add: Let_def updateReviewData_reviewData_stats)
qed

lemma Math_round_ge_1:
  assumes "1 \<le> x"
  shows "1 \<le> Math_round x"
proof -
  have "1 \<le> \<lfloor>x + 1 / 2\<rfloor>" using assms by (simp add: le_floor_iff)
  then show ?thesis by (simp add: Math_round_def)
qed

section \<open>The failure branch\<close>

text \<open>
  C3. For every quality below 3, the method leaves the card with \<open>reviewCount = 0\<close> and
  \<open>interval = 1\<close>, whatever the interval, the ease factor and the streak were; it adds
  exactly 1 to \<open>incorrectAnswers\<close> and leaves \<open>correctAnswers\<close> as it was. A request
  with such a quality in the range 0 to 5, for a card the caller owns, succeeds and
  returns and stores a card with these fields.
\<close>

theorem failure_resets_streak_and_interval:
  assumes "q < 3"
  shows "reviewCount (reviewData (updateReviewData q tDate tNow c)) = 0
       \<and> interval (reviewData (updateReviewData q tDate tNow c)) = 1
       \<and> incorrectAnswers (stats (updateReviewData q tDate tNow c))
           = incorrectAnswers (stats c) + 1
       \<and> correctAnswers (stats (updateReviewData q tDate tNow c)) = correctAnswers (stats c)
       \<and> (0 \<le> q \<and> quality req = Some q \<and> findOne db cid uid = Some c \<longrightarrow>
            (\<exists>c'. review db uid cid req tDate tNow = (Inr c', db(cid \<mapsto> c'))
               \<and> reviewCount (reviewData c') = 0
               \<and> interval (reviewData c') = 1
               \<and> incorrectAnswers (stats c') = incorrectAnswers (stats c) + 1
               \<and> correctAnswers (stats c') = correctAnswers (stats c)))"
proof -
  have m: "reviewCount (reviewData (updateReviewData q tDate tNow x)) = 0
       \<and> interval (reviewData (updateReviewData q tDate tNow x)) = 1
       \<and> incorrectAnswers (stats (updateReviewData q tDate tNow x))
           = incorrectAnswers (stats x) + 1
       \<and> correctAnswers (stats (updateReviewData q tDate tNow x)) = correctAnswers (stats x)"
    for x
    using assms by (simp add: updateReviewData_fail)
  have "\<exists>c'. review db uid cid req tDate tNow = (Inr c', db(cid \<mapsto> c'))
               \<and> reviewCount (reviewData c') = 0
               \<and> interval (reviewData c') = 1
               \<and> incorrectAnswers (stats c') = incorrectAnswers (stats c) + 1
               \<and> correctAnswers (stats c') = correctAnswers (stats c)"
    if h: "0 \<le> q" "quality req = Some q" "findOne db cid uid = Some c"
  proof -
    have "q \<le> 5" using assms by simp
    from review_ok [OF h(2) h(1) this h(3), of tDate tNow]
    show ?thesis using assms by (simp add: Let_def updateReviewData_fail)
  qed
  with m [of c] show ?thesis by blast
qed

theorem failure_resets_streak_and_interval_witness:
  "(2::real) < 3 \<and> (0::real) \<le> 2
   \<and> findOne [7 \<mapsto> newFlashcard 1 1 ''What is HOL?'' ''A logic'' ''logic'' 0] 7 1
       = Some (newFlashcard 1 1 ''What is HOL?'' ''A logic'' ''logic'' 0)
   \<and> (\<exists>c'. review [7 \<mapsto> newFlashcard 1 1 ''What is HOL?'' ''A logic'' ''logic'' 0] 1 7
              \<lparr>quality = Some 2, responseTime = None\<rparr> 10 20
            = (Inr c', [7 \<mapsto> c'])
          \<and> reviewCount (reviewData c') = 0
          \<and> interval (reviewData c') = 1
          \<and> incorrectAnswers (stats c') = 1
          \<and> correctAnswers (stats c') = 0)"
proof -
  let ?c = "newFlashcard 1 1 ''What is HOL?'' ''A logic'' ''logic'' 0"
  have h: "findOne [7 \<mapsto> ?c] 7 1 = Some ?c"
    by (simp add: findOne_def newFlashcard_def)
  have v: "incorrectAnswers (stats ?c) = 0" "correctAnswers (stats ?c) = 0"
    by (simp_all add: newFlashcard_def)
  from failure_resets_streak_and_interval
         [where q = 2 and c = ?c and db = "[7 \<mapsto> ?c]" and cid = 7 and uid = 1
            and req = "\<lparr>quality = Some 2, responseTime = None\<rparr>"
            and tDate = 10 and tNow = 20]
  show ?thesis using h v by simp
qed

text \<open>
  C7. For every quality below 3, the method leaves \<open>easeFactor\<close> at its prior value
  when that value is at least 1.3 and sets it to 1.3 when it is below: the failure
  branch does not touch the ease factor, only the floor after it may. A request with
  such a quality in the range 0 to 5, for a card the caller owns, succeeds with a card
  whose ease factor is that one.
\<close>

theorem failure_keeps_easeFactor:
  assumes "q < 3"
  shows "easeFactor (reviewData (updateReviewData q tDate tNow c))
           = (if 1.3 \<le> easeFactor (reviewData c) then easeFactor (reviewData c) else 1.3)
       \<and> (0 \<le> q \<and> quality req = Some q \<and> findOne db cid uid = Some c \<longrightarrow>
            (\<exists>c'. review db uid cid req tDate tNow = (Inr c', db(cid \<mapsto> c'))
               \<and> easeFactor (reviewData c')
                   = (if 1.3 \<le> easeFactor (reviewData c) then easeFactor (reviewData c)
                      else 1.3)))"
proof (intro conjI impI)
  show "easeFactor (reviewData (updateReviewData q tDate tNow c))
           = (if 1.3 \<le> easeFactor (reviewData c) then easeFactor (reviewData c) else 1.3)"
    using assms by (simp add: updateReviewData_fail)
next
  assume h: "0 \<le> q \<and> quality req = Some q \<and> findOne db cid uid = Some c"
  have "q \<le> 5" using assms by simp
  with h have "review db uid cid req tDate tNow =
    (let c' = updateReviewData q tDate tNow
                (c\<lparr>stats := (stats c)\<lparr>averageResponseTime :=
                   (case responseTime req of
                      None \<Rightarrow> averageResponseTime (stats c)
                    | Some rt \<Rightarrow>
                        if rt \<noteq> 0
                        then (averageResponseTime (stats c) * timesReviewed (stats c) + rt)
                               / (timesReviewed (stats c) + 1)
                        else averageResponseTime (stats c))\<rparr>\<rparr>)
     in (Inr c', db(cid \<mapsto> c')))"
    by (intro review_ok) simp_all
  then show "\<exists>c'. review db uid cid req tDate tNow = (Inr c', db(cid \<mapsto> c'))
               \<and> easeFactor (reviewData c')
                   = (if 1.3 \<le> easeFactor (reviewData c) then easeFactor (reviewData c)
                      else 1.3)"
    using assms by (simp add: Let_def updateReviewData_fail)
qed

theorem failure_keeps_easeFactor_witness:
  "(2::real) < 3 \<and> (0::real) \<le> 2
   \<and> findOne [7 \<mapsto> newFlashcard 1 1 ''What is HOL?'' ''A logic'' ''logic'' 0] 7 1
       = Some (newFlashcard 1 1 ''What is HOL?'' ''A logic'' ''logic'' 0)
   \<and> (\<exists>c'. review [7 \<mapsto> newFlashcard 1 1 ''What is HOL?'' ''A logic'' ''logic'' 0] 1 7
              \<lparr>quality = Some 2, responseTime = Some 4\<rparr> 10 20
            = (Inr c', [7 \<mapsto> c'])
          \<and> easeFactor (reviewData c') = 2.5)"
proof -
  let ?c = "newFlashcard 1 1 ''What is HOL?'' ''A logic'' ''logic'' 0"
  have h: "findOne [7 \<mapsto> ?c] 7 1 = Some ?c"
    by (simp add: findOne_def newFlashcard_def)
  from failure_keeps_easeFactor
         [where q = 2 and c = ?c and db = "[7 \<mapsto> ?c]" and cid = 7 and uid = 1
            and req = "\<lparr>quality = Some 2, responseTime = Some 4\<rparr>"
            and tDate = 10 and tNow = 20]
  show ?thesis using h by (simp add: newFlashcard_def)
qed

section \<open>Rejected requests\<close>

text \<open>
  C4. For every quality outside the range 0 to 5 (\<open>-1\<close> and \<open>6\<close> among them) the request
  fails with \<open>InvalidQuality\<close> and the collection after it is the collection before it:
  the check comes before the card is even looked up, so no field of any card changes.
\<close>

theorem invalid_quality_rejected:
  assumes "quality req = Some q" and "q < 0 \<or> q > 5"
  shows "review db uid cid req tDate tNow = (Inl InvalidQuality, db)"
  using assms by (auto simp add: review_def)

theorem invalid_quality_rejected_witness:
  "review [7 \<mapsto> newFlashcard 1 1 ''What is HOL?'' ''A logic'' ''logic'' 0] 1 7
          \<lparr>quality = Some (- 1), responseTime = Some 4\<rparr> 10 20
     = (Inl InvalidQuality, [7 \<mapsto> newFlashcard 1 1 ''What is HOL?'' ''A logic'' ''logic'' 0])
   \<and> review [7 \<mapsto> newFlashcard 1 1 ''What is HOL?'' ''A logic'' ''logic'' 0] 1 7
          \<lparr>quality = Some 6, responseTime = Some 4\<rparr> 10 20
     = (Inl InvalidQuality, [7 \<mapsto> newFlashcard 1 1 ''What is HOL?'' ''A logic'' ''logic'' 0])"
proof -
  let ?db = "[7 \<mapsto> newFlashcard 1 1 ''What is HOL?'' ''A logic'' ''logic'' 0]"
  have a: "quality \<lparr>quality = Some (- 1), responseTime = Some 4\<rparr> = Some (- 1)"
    and b: "quality \<lparr>quality = Some 6, responseTime = Some 4\<rparr> = Some 6"
    by simp_all
  have a': "(- 1 :: real) < 0 \<or> (- 1 :: real) > 5" and b': "(6::real) < 0 \<or> (6::real) > 5"
    by simp_all
  from invalid_quality_rejected [OF a a', of ?db 1 7 10 20]
       invalid_quality_rejected [OF b b', of ?db 1 7 10 20]
  show ?thesis by simp
qed

section \<open>The invariants of a card\<close>

lemma updateReviewData_counters:
  assumes "correctAnswers (stats c) + incorrectAnswers (stats c) = timesReviewed (stats c)"
  shows "correctAnswers (stats (updateReviewData q tDate tNow c))
           + incorrectAnswers (stats (updateReviewData q tDate tNow c))
         = timesReviewed (stats (updateReviewData q tDate tNow c))"
proof (cases "q < 3")
  case True
  then show ?thesis using assms by (simp add: updateReviewData_fail)
next
  case False
  then have "3 \<le> q" by simp
  then show ?thesis using assms by (simp add: updateReviewData_success Let_def)
qed

lemma updateReviewData_easeFactor_floor:
  "1.3 \<le> easeFactor (reviewData (updateReviewData q tDate tNow c))"
proof (cases "q < 3")
  case True
  then show ?thesis by (simp add: updateReviewData_fail)
next
  case False
  then have "3 \<le> q" by simp
  then show ?thesis by (simp add: updateReviewData_success Let_def)
qed

lemma updateReviewData_interval_ge_1:
  assumes "1.3 \<le> easeFactor (reviewData c)" and "1 \<le> interval (reviewData c)"
  shows "1 \<le> interval (reviewData (updateReviewData q tDate tNow c))"
proof (cases "q < 3")
  case True
  then show ?thesis by (simp add: updateReviewData_fail)
next
  case False
  then have q: "3 \<le> q" by simp
  have "1 * 1 \<le> interval (reviewData c) * easeFactor (reviewData c)"
    using assms by (intro mult_mono) simp_all
  then have "1 \<le> fl (interval (reviewData c) * easeFactor (reviewData c))"
    by (intro fl_ge_1) simp
  then have "1 \<le> Math_round (fl (interval (reviewData c) * easeFactor (reviewData c)))"
    by (rule Math_round_ge_1)
  then show ?thesis using q by (simp add: updateReviewData_success Let_def)
qed

text \<open>
  C1. For every card that satisfies the three invariants (the counters add up, the
  ease factor is at least 1.3, the interval is at least 1; a new card does) and every
  quality in the range 0 to 5, a review of a card the caller owns succeeds, and the
  card it returns and stores satisfies the three invariants again.
\<close>

theorem review_keeps_invariants:
  assumes "findOne db cid uid = Some c" and "quality req = Some q"
    and "0 \<le> q" and "q \<le> 5"
    and "correctAnswers (stats c) + incorrectAnswers (stats c) = timesReviewed (stats c)"
    and "1.3 \<le> easeFactor (reviewData c)" and "1 \<le> interval (reviewData c)"
  shows "\<exists>c'. review db uid cid req tDate tNow = (Inr c', db(cid \<mapsto> c'))
           \<and> correctAnswers (stats c') + incorrectAnswers (stats c') = timesReviewed (stats c')
           \<and> 1.3 \<le> easeFactor (reviewData c')
           \<and> 1 \<le> interval (reviewData c')"
proof -
  define a where "a = (case responseTime req of
                      None \<Rightarrow> averageResponseTime (stats c)
                    | Some rt \<Rightarrow>
                        if rt \<noteq> 0
                        then (averageResponseTime (stats c) * timesReviewed (stats c) + rt)
                               / (timesReviewed (stats c) + 1)
                        else averageResponseTime (stats c))"
  define c1 where "c1 = c\<lparr>stats := (stats c)\<lparr>averageResponseTime := a\<rparr>\<rparr>"
  define c' where "c' = updateReviewData q tDate tNow c1"
  have r: "review db uid cid req tDate tNow = (Inr c', db(cid \<mapsto> c'))"
    using review_ok [OF assms(2) assms(3) assms(4) assms(1), of tDate tNow]
    by (simp add: Let_def c'_def c1_def a_def)
  have i1: "correctAnswers (stats c1) + incorrectAnswers (stats c1) = timesReviewed (stats c1)"
    using assms(5) by (simp add: c1_def)
  have i2: "1.3 \<le> easeFactor (reviewData c1)" using assms(6) by (simp add: c1_def)
  have i3: "1 \<le> interval (reviewData c1)" using assms(7) by (simp add: c1_def)
  have "correctAnswers (stats c') + incorrectAnswers (stats c') = timesReviewed (stats c')"
    unfolding c'_def using i1 by (rule updateReviewData_counters)
  moreover have "1.3 \<le> easeFactor (reviewData c')"
    unfolding c'_def by (rule updateReviewData_easeFactor_floor)
  moreover have "1 \<le> interval (reviewData c')"
    unfolding c'_def using i2 i3 by (rule updateReviewData_interval_ge_1)
  ultimately show ?thesis using r by blast
qed

theorem review_keeps_invariants_witness:
  "\<exists>c'. review [7 \<mapsto> newFlashcard 3 5 ''What is HOL?'' ''A logic'' ''logic'' 0] 3 7
              \<lparr>quality = Some 4, responseTime = Some 12\<rparr> 10 20
            = (Inr c', [7 \<mapsto> c'])
          \<and> correctAnswers (stats c') + incorrectAnswers (stats c') = timesReviewed (stats c')
          \<and> 1.3 \<le> easeFactor (reviewData c')
          \<and> 1 \<le> interval (reviewData c')"
proof -
  let ?c = "newFlashcard 3 5 ''What is HOL?'' ''A logic'' ''logic'' 0"
  have h: "findOne [7 \<mapsto> ?c] 7 3 = Some ?c"
    by (simp add: findOne_def newFlashcard_def)
  have b: "quality \<lparr>quality = Some 4, responseTime = Some 12\<rparr> = Some 4"
    by simp
  have i: "correctAnswers (stats ?c) + incorrectAnswers (stats ?c) = timesReviewed (stats ?c)"
    "1.3 \<le> easeFactor (reviewData ?c)" "1 \<le> interval (reviewData ?c)"
    by (simp_all add: newFlashcard_def)
  have "(0::real) \<le> 4" and "(4::real) \<le> 5" by simp_all
  from review_keeps_invariants [OF h b this i, of 10 20]
  show ?thesis by simp
qed

section \<open>The success branch\<close>

text \<open>
  C2. For every quality of at least 3, the method sets the interval by the streak
  counter after its increment: 1 when the counter is 1, 6 when it is 2 (whatever the
  ease factor), and otherwise \<open>Math.round\<close> of the product of the interval and the
  ease factor the card held before the review. The product is the one the \<open>Number\<close>
  multiplication computes, the exact product rounded to binary64. Whenever a request
  with such a quality, for a card the caller owns, returns a card, that card has the
  incremented counter and that interval.
\<close>

theorem success_sets_interval:
  assumes "3 \<le> q"
  shows "interval (reviewData (updateReviewData q tDate tNow c))
           = (if reviewCount (reviewData c) + 1 = 1 then 1
              else if reviewCount (reviewData c) + 1 = 2 then 6
              else Math_round (fl (interval (reviewData c) * easeFactor (reviewData c))))
       \<and> (quality req = Some q \<and> findOne db cid uid = Some c
            \<and> review db uid cid req tDate tNow = (Inr c', db') \<longrightarrow>
            reviewCount (reviewData c') = reviewCount (reviewData c) + 1
            \<and> interval (reviewData c')
                = (if reviewCount (reviewData c') = 1 then 1
                   else if reviewCount (reviewData c') = 2 then 6
                   else Math_round
                          (fl (interval (reviewData c) * easeFactor (reviewData c)))))"
proof (intro conjI impI)
  show "interval (reviewData (updateReviewData q tDate tNow c))
           = (if reviewCount (reviewData c) + 1 = 1 then 1
              else if reviewCount (reviewData c) + 1 = 2 then 6
              else Math_round (fl (interval (reviewData c) * easeFactor (reviewData c))))"
    using assms by (simp add: updateReviewData_success Let_def)
next
  assume h: "quality req = Some q \<and> findOne db cid uid = Some c
            \<and> review db uid cid req tDate tNow = (Inr c', db')"
  then have r: "reviewData c' = reviewData (updateReviewData q tDate tNow c)"
    by (blast intro: review_Inr_reviewData)
  show "reviewCount (reviewData c') = reviewCount (reviewData c) + 1"
    unfolding r using assms by (simp add: updateReviewData_success Let_def)
  show "interval (reviewData c')
          = (if reviewCount (reviewData c') = 1 then 1
             else if reviewCount (reviewData c') = 2 then 6
             else Math_round (fl (interval (reviewData c) * easeFactor (reviewData c))))"
    unfolding r using assms by (simp add: updateReviewData_success Let_def)
qed

text \<open>
  An instance: a card with the interval 275, the ease factor
  \<open>5359283556570890 / 2 ^ 51\<close> (the binary64 value nearest to 2.38) and the counter 6,
  reviewed with quality 3. The exact product is just below 654.5 and rounds to the
  binary64 value 654.5, so the new interval is 655; \<open>Math.round\<close> of the exact product
  would be 654.
\<close>

theorem success_sets_interval_witness:
  "(3::real) \<le> 3
   \<and> (\<exists>c'. review [7 \<mapsto> (newFlashcard 3 5 ''What is HOL?'' ''A logic'' ''logic'' 0)
                            \<lparr>reviewData := \<lparr>interval = 275,
                                             easeFactor = 5359283556570890 / 2 ^ 51,
                                             nextReview = 0, reviewCount = 6\<rparr>\<rparr>] 3 7
              \<lparr>quality = Some 3, responseTime = None\<rparr> 10 20
            = (Inr c', [7 \<mapsto> c'])
          \<and> reviewCount (reviewData c') = 7
          \<and> interval (reviewData c') = 655)
   \<and> Math_round (275 * (5359283556570890 / 2 ^ 51)) = 654"
proof -
  let ?c = "(newFlashcard 3 5 ''What is HOL?'' ''A logic'' ''logic'' 0)
              \<lparr>reviewData := \<lparr>interval = 275, easeFactor = 5359283556570890 / 2 ^ 51,
                               nextReview = 0, reviewCount = 6\<rparr>\<rparr>"
  let ?req = "\<lparr>quality = Some 3, responseTime = None\<rparr>"
  let ?c' = "updateReviewData 3 10 20 ?c"
  have h: "findOne [7 \<mapsto> ?c] 7 3 = Some ?c"
    by (simp add: findOne_def newFlashcard_def)
  have b: "quality ?req = Some 3" by simp
  have q: "(3::real) \<le> 3" and q0: "(0::real) \<le> 3" and q5: "(3::real) \<le> 5" by simp_all
  have r: "review [7 \<mapsto> ?c] 3 7 ?req 10 20 = (Inr ?c', [7 \<mapsto> ?c'])"
    using review_ok [OF b q0 q5 h, of 10 20] by (simp add: Let_def)
  have p: "fl (275 * (5359283556570890 / 2 ^ 51)) = 1309 / 2"
    by (subst fl_eval [where e = 9]) (simp_all add: roundTiesToEven_def Let_def)
  have m: "interval (reviewData ?c) * easeFactor (reviewData ?c)
             = 275 * (5359283556570890 / 2 ^ 51)"
    by (simp add: newFlashcard_def)
  have v: "reviewCount (reviewData ?c) = 6"
    "Math_round (fl (interval (reviewData ?c) * easeFactor (reviewData ?c))) = 655"
    unfolding m p by (simp_all add: Math_round_def)
  from success_sets_interval
         [OF q, where c = ?c and db = "[7 \<mapsto> ?c]" and cid = 7 and uid = 3
            and req = ?req and tDate = 10 and tNow = 20
            and c' = ?c' and db' = "[7 \<mapsto> ?c']"] b h r
  have n: "reviewCount (reviewData ?c') = reviewCount (reviewData ?c) + 1"
    and i: "interval (reviewData ?c')
              = (if reviewCount (reviewData ?c') = 1 then 1
                 else if reviewCount (reviewData ?c') = 2 then 6
                 else Math_round (fl (interval (reviewData ?c) * easeFactor (reviewData ?c))))"
    by blast+
  from n have n': "reviewCount (reviewData ?c') = 7" by (simp only: v)
  from i have i': "interval (reviewData ?c') = 655" by (simp only: n' v) simp
  have x: "Math_round (275 * (5359283556570890 / 2 ^ 51)) = 654"
    by (simp add: Math_round_def)
  from r n' i' x show ?thesis by blast
qed

section \<open>The next review\<close>






section \<open>The response time\<close>

lemma updateReviewData_averageResponseTime:
  "averageResponseTime (stats (updateReviewData q tDate tNow c))
     = averageResponseTime (stats c)"
proof (cases "q < 3")
  case True
  then show ?thesis by (simp add: updateReviewData_fail)
next
  case False
  then have "3 \<le> q" by simp
  then show ?thesis by (simp add: updateReviewData_success Let_def)
qed

text \<open>
  What the route does with a response time that is not zero: the running mean over
  one more sample, computed from \<open>timesReviewed\<close> before the method increments it. An
  absent response time leaves the mean as it was.
\<close>

lemma review_averageResponseTime:
  assumes "quality req = Some q" and "0 \<le> q" and "q \<le> 5"
    and "findOne db cid uid = Some c"
  shows "\<exists>c'. review db uid cid req tDate tNow = (Inr c', db(cid \<mapsto> c'))
           \<and> averageResponseTime (stats c')
               = (case responseTime req of
                    None \<Rightarrow> averageResponseTime (stats c)
                  | Some rt \<Rightarrow>
                      if rt \<noteq> 0
                      then (averageResponseTime (stats c) * timesReviewed (stats c) + rt)
                             / (timesReviewed (stats c) + 1)
                      else averageResponseTime (stats c))"
  using review_ok [OF assms, of tDate tNow]
  by (simp add: Let_def updateReviewData_averageResponseTime)

text \<open>
  C10. A request that gives \<open>responseTime = 0\<close>, with a quality in the range 0 to 5
  and for a card the caller owns, succeeds and leaves \<open>averageResponseTime\<close> as it
  was: the guard of the update is the truthiness of \<open>responseTime\<close>, so the response
  and the collection are those of the same request without a response time.
\<close>

theorem zero_responseTime_is_ignored:
  assumes "responseTime req = Some 0"
    and "quality req = Some q" and "0 \<le> q" and "q \<le> 5"
    and "findOne db cid uid = Some c"
  shows "\<exists>c'. review db uid cid req tDate tNow = (Inr c', db(cid \<mapsto> c'))
           \<and> averageResponseTime (stats c') = averageResponseTime (stats c)
           \<and> review db uid cid (req\<lparr>responseTime := None\<rparr>) tDate tNow
               = (Inr c', db(cid \<mapsto> c'))"
proof -
  have "quality (req\<lparr>responseTime := None\<rparr>) = Some q" using assms(2) by simp
  from review_ok [OF assms(2-5), of tDate tNow] review_ok [OF this assms(3-5), of tDate tNow]
  show ?thesis
    using assms(1) by (simp add: Let_def updateReviewData_averageResponseTime)
qed

theorem zero_responseTime_is_ignored_witness:
  "\<exists>c'. review [7 \<mapsto> (newFlashcard 3 5 ''What is HOL?'' ''A logic'' ''logic'' 0)
                         \<lparr>stats := \<lparr>timesReviewed = 1, correctAnswers = 1,
                                    incorrectAnswers = 0, lastReviewed = Some 0,
                                    averageResponseTime = 10\<rparr>\<rparr>] 3 7
              \<lparr>quality = Some 5, responseTime = Some 0\<rparr> 10 20
            = (Inr c', [7 \<mapsto> c'])
          \<and> averageResponseTime (stats c') = 10
          \<and> review [7 \<mapsto> (newFlashcard 3 5 ''What is HOL?'' ''A logic'' ''logic'' 0)
                         \<lparr>stats := \<lparr>timesReviewed = 1, correctAnswers = 1,
                                    incorrectAnswers = 0, lastReviewed = Some 0,
                                    averageResponseTime = 10\<rparr>\<rparr>] 3 7
              \<lparr>quality = Some 5, responseTime = None\<rparr> 10 20
            = (Inr c', [7 \<mapsto> c'])"
proof -
  let ?c = "(newFlashcard 3 5 ''What is HOL?'' ''A logic'' ''logic'' 0)
              \<lparr>stats := \<lparr>timesReviewed = 1, correctAnswers = 1, incorrectAnswers = 0,
                         lastReviewed = Some 0, averageResponseTime = 10\<rparr>\<rparr>"
  let ?req = "\<lparr>quality = Some 5, responseTime = Some 0\<rparr>"
  have h: "findOne [7 \<mapsto> ?c] 7 3 = Some ?c"
    by (simp add: findOne_def newFlashcard_def)
  have a: "responseTime ?req = Some 0" and b: "quality ?req = Some 5" by simp_all
  have "(0::real) \<le> 5" and "(5::real) \<le> 5" by simp_all
  from zero_responseTime_is_ignored [OF a b this h, of 10 20]
  show ?thesis by simp
qed

text \<open>
  C8. The route at a measured response time of 0 seconds: a card reviewed once, with
  a mean response time of 10 seconds, is reviewed again with \<open>responseTime = 0\<close>. The
  running mean over two samples is \<open>(10 * 1 + 0) / (1 + 1) = 5\<close>; the card the route
  returns still has the mean 10.
\<close>

theorem zero_responseTime_not_averaged:
  "map_sum id (\<lambda>c'. averageResponseTime (stats c'))
     (fst (review [7 \<mapsto> (newFlashcard 3 5 ''What is HOL?'' ''A logic'' ''logic'' 0)
                           \<lparr>stats := \<lparr>timesReviewed = 1, correctAnswers = 1,
                                      incorrectAnswers = 0, lastReviewed = Some 0,
                                      averageResponseTime = 10\<rparr>\<rparr>] 3 7
             \<lparr>quality = Some 5, responseTime = Some 0\<rparr> 10 20))
     = Inr 10
   \<and> ((10::real) * 1 + 0) / (1 + 1) = 5"
  by (simp add: review_def findOne_def newFlashcard_def Let_def
        updateReviewData_averageResponseTime)

section \<open>The scenarios of a new card\<close>

text \<open>
  C5, as the specification states it, fails in its last number. A new card reviewed
  with quality 5 and then with quality 4 has the ease factor 2.6, not about 2.68:
  the increment for quality 4 is \<open>0.1 - 1 * (0.08 + 1 * 0.02) = 0\<close>, so the second
  review leaves the 2.6 of the first. The value is 0.08 away from 2.68.
\<close>

theorem scenario_B_easeFactor_counterexample:
  "review [7 \<mapsto> updateReviewData 5 10 20
                   (newFlashcard 3 5 ''What is HOL?'' ''A logic'' ''logic'' 0)] 3 7
          \<lparr>quality = Some 4, responseTime = None\<rparr> 30 40
     = (Inr (updateReviewData 4 30 40 (updateReviewData 5 10 20
               (newFlashcard 3 5 ''What is HOL?'' ''A logic'' ''logic'' 0))),
        [7 \<mapsto> updateReviewData 4 30 40 (updateReviewData 5 10 20
               (newFlashcard 3 5 ''What is HOL?'' ''A logic'' ''logic'' 0))])
   \<and> easeFactor (reviewData (updateReviewData 4 30 40 (updateReviewData 5 10 20
         (newFlashcard 3 5 ''What is HOL?'' ''A logic'' ''logic'' 0)))) = 2.6
   \<and> \<not> \<bar>easeFactor (reviewData (updateReviewData 4 30 40 (updateReviewData 5 10 20
           (newFlashcard 3 5 ''What is HOL?'' ''A logic'' ''logic'' 0)))) - 2.68\<bar> < 0.08"
proof -
  let ?c0 = "newFlashcard 3 5 ''What is HOL?'' ''A logic'' ''logic'' 0"
  let ?cA = "updateReviewData 5 10 20 ?c0"
  have e: "easeFactor (reviewData (updateReviewData 4 30 40 ?cA)) = 2.6"
    by (simp add: updateReviewData_success Let_def newFlashcard_def)
  have f: "findOne [7 \<mapsto> ?cA] 7 3 = Some ?cA"
    by (simp add: findOne_def updateReviewData_success Let_def newFlashcard_def)
  have b: "quality \<lparr>quality = Some 4, responseTime = None\<rparr> = Some 4" by simp
  have "(0::real) \<le> 4" and "(4::real) \<le> 5" by simp_all
  from review_ok [OF b this f, of 30 40]
  have r: "review [7 \<mapsto> ?cA] 3 7 \<lparr>quality = Some 4, responseTime = None\<rparr> 30 40
             = (Inr (updateReviewData 4 30 40 ?cA), [7 \<mapsto> updateReviewData 4 30 40 ?cA])"
    by (simp add: Let_def)
  show ?thesis unfolding e using r by simp
qed

text \<open>
  C5, amended. A new card reviewed with quality 5 has \<open>reviewCount = 1\<close>,
  \<open>interval = 1\<close>, \<open>easeFactor = 2.6\<close>, \<open>correctAnswers = 1\<close> and \<open>timesReviewed = 1\<close>; the
  resulting card reviewed with quality 4 has \<open>reviewCount = 2\<close>, \<open>interval = 6\<close> and
  \<open>easeFactor = 2.6\<close>. Every success adds
  \<open>0.1 - (5 - quality) * (0.08 + (5 - quality) * 0.02)\<close> to the ease factor, and the
  floor of 1.3 applies to the sum.
\<close>

theorem success_scenarios_easeFactor:
  "(let c0 = newFlashcard u s qn an tp now0;
        cA = updateReviewData 5 tDateA tNowA c0;
        cB = updateReviewData 4 tDateB tNowB cA
    in review [i \<mapsto> c0] u i \<lparr>quality = Some 5, responseTime = None\<rparr> tDateA tNowA
         = (Inr cA, [i \<mapsto> cA])
       \<and> reviewCount (reviewData cA) = 1
       \<and> interval (reviewData cA) = 1
       \<and> easeFactor (reviewData cA) = 2.6
       \<and> correctAnswers (stats cA) = 1
       \<and> timesReviewed (stats cA) = 1
       \<and> review [i \<mapsto> cA] u i \<lparr>quality = Some 4, responseTime = None\<rparr> tDateB tNowB
         = (Inr cB, [i \<mapsto> cB])
       \<and> reviewCount (reviewData cB) = 2
       \<and> interval (reviewData cB) = 6
       \<and> easeFactor (reviewData cB) = 2.6)
   \<and> (3 \<le> q \<longrightarrow>
        easeFactor (reviewData (updateReviewData q tDate tNow c))
          = max 1.3 (easeFactor (reviewData c)
                       + (0.1 - (5 - q) * (0.08 + (5 - q) * 0.02))))"
proof -
  define c0 where "c0 = newFlashcard u s qn an tp now0"
  define cA where "cA = updateReviewData 5 tDateA tNowA c0"
  define cB where "cB = updateReviewData 4 tDateB tNowB cA"
  have a: "cA = c0\<lparr>stats := \<lparr>timesReviewed = 1, correctAnswers = 1, incorrectAnswers = 0,
                             lastReviewed = Some tDateA, averageResponseTime = 0\<rparr>,
                   reviewData := \<lparr>interval = 1, easeFactor = 2.6,
                                  nextReview = TimeClip (tNowA + 1 * 24 * 60 * 60 * 1000),
                                  reviewCount = 1\<rparr>\<rparr>"
    by (simp add: cA_def c0_def updateReviewData_success Let_def newFlashcard_def)
  have b: "cB = c0\<lparr>stats := \<lparr>timesReviewed = 2, correctAnswers = 2, incorrectAnswers = 0,
                             lastReviewed = Some tDateB, averageResponseTime = 0\<rparr>,
                   reviewData := \<lparr>interval = 6, easeFactor = 2.6,
                                  nextReview = TimeClip (tNowB + 6 * 24 * 60 * 60 * 1000),
                                  reviewCount = 2\<rparr>\<rparr>"
    by (simp add: cB_def a c0_def updateReviewData_success Let_def newFlashcard_def)
  have f0: "findOne [i \<mapsto> c0] i u = Some c0"
    by (simp add: findOne_def c0_def newFlashcard_def)
  have fA: "findOne [i \<mapsto> cA] i u = Some cA"
    by (simp add: findOne_def a c0_def newFlashcard_def)
  have q5: "quality \<lparr>quality = Some 5, responseTime = None\<rparr> = Some 5"
    and q4: "quality \<lparr>quality = Some 4, responseTime = None\<rparr> = Some 4"
    by simp_all
  have r5: "(0::real) \<le> 5" "(5::real) \<le> 5" and r4: "(0::real) \<le> 4" "(4::real) \<le> 5"
    by simp_all
  have rA: "review [i \<mapsto> c0] u i \<lparr>quality = Some 5, responseTime = None\<rparr> tDateA tNowA
              = (Inr cA, [i \<mapsto> cA])"
    using review_ok [OF q5 r5 f0, of tDateA tNowA] by (simp add: Let_def cA_def)
  have rB: "review [i \<mapsto> cA] u i \<lparr>quality = Some 4, responseTime = None\<rparr> tDateB tNowB
              = (Inr cB, [i \<mapsto> cB])"
    using review_ok [OF q4 r4 fA, of tDateB tNowB] by (simp add: Let_def cB_def)
  have vA: "reviewCount (reviewData cA) = 1" "interval (reviewData cA) = 1"
    "easeFactor (reviewData cA) = 2.6" "correctAnswers (stats cA) = 1"
    "timesReviewed (stats cA) = 1"
    by (simp_all add: a)
  have vB: "reviewCount (reviewData cB) = 2" "interval (reviewData cB) = 6"
    "easeFactor (reviewData cB) = 2.6"
    by (simp_all add: b)
  have g: "easeFactor (reviewData (updateReviewData q tDate tNow c))
          = max 1.3 (easeFactor (reviewData c)
                       + (0.1 - (5 - q) * (0.08 + (5 - q) * 0.02)))"
    if "3 \<le> q"
    using that by (simp add: updateReviewData_success Let_def max_def)
  from rA rB vA vB g show ?thesis
    unfolding Let_def c0_def [symmetric] cA_def [symmetric] cB_def [symmetric]
    by blast
qed

theorem success_scenarios_easeFactor_witness:
  "(3::real) \<le> 3
   \<and> easeFactor (reviewData (updateReviewData 3 10 20
        ((newFlashcard 3 5 ''What is HOL?'' ''A logic'' ''logic'' 0)
           \<lparr>reviewData := \<lparr>interval = 6, easeFactor = 1.4, nextReview = 0,
                            reviewCount = 2\<rparr>\<rparr>))) = 1.3
   \<and> easeFactor (reviewData (updateReviewData 3 10 20
        (newFlashcard 3 5 ''What is HOL?'' ''A logic'' ''logic'' 0))) = 2.36"
proof -
  let ?c = "(newFlashcard 3 5 ''What is HOL?'' ''A logic'' ''logic'' 0)
              \<lparr>reviewData := \<lparr>interval = 6, easeFactor = 1.4, nextReview = 0,
                               reviewCount = 2\<rparr>\<rparr>"
  let ?d = "newFlashcard 3 5 ''What is HOL?'' ''A logic'' ''logic'' 0"
  have q: "(3::real) \<le> 3" by simp
  have v: "easeFactor (reviewData ?c) = 1.4" "easeFactor (reviewData ?d) = 2.5"
    by (simp_all add: newFlashcard_def)
  from success_scenarios_easeFactor [where q = 3 and c = ?c and tDate = 10 and tNow = 20]
  have "easeFactor (reviewData (updateReviewData 3 10 20 ?c)) = 1.3"
    by (simp only: q v) simp
  moreover
  from success_scenarios_easeFactor [where q = 3 and c = ?d and tDate = 10 and tNow = 20]
  have "easeFactor (reviewData (updateReviewData 3 10 20 ?d)) = 2.36"
    by (simp only: q v) simp
  ultimately show ?thesis by simp
qed

section \<open>The average success rate of the analytics route\<close>

lemma foldl_plus_sum_list:
  "foldl (\<lambda>sum rate. sum + rate) a rates = a + sum_list (rates :: real list)"
  by (induction rates arbitrary: a) simp_all

lemma averageSuccessRate_sum_list:
  assumes "flashcards \<noteq> []"
  shows "averageSuccessRate flashcards
           = Math_round (sum_list (map successRate flashcards) / real (length flashcards))"
  using assms by (simp add: averageSuccessRate_def Let_def foldl_plus_sum_list)

lemma successRate_never_reviewed:
  "timesReviewed (stats fc) = 0 \<Longrightarrow> successRate fc = 0"
  by (simp add: successRate_def)

text \<open>A card never reviewed adds 0 to the sum, so the sum is that of the reviewed cards.\<close>

lemma sum_successRate_reviewed:
  assumes "\<forall>fc \<in> set flashcards. 0 \<le> timesReviewed (stats fc)"
  shows "sum_list (map successRate
                     (filter (\<lambda>fc. timesReviewed (stats fc) > 0) flashcards))
           = sum_list (map successRate flashcards)"
  using assms
proof (induction flashcards)
  case Nil
  show ?case by simp
next
  case (Cons fc flashcards)
  show ?case
  proof (cases "timesReviewed (stats fc) > 0")
    case True
    with Cons show ?thesis by simp
  next
    case False
    with Cons.prems have "timesReviewed (stats fc) = 0" by simp
    with Cons show ?thesis by (simp add: successRate_never_reviewed)
  qed
qed

text \<open>
  C6, as the specification states it, fails. With one card reviewed once with
  success (success rate 100) and one card never reviewed, the route reports
  \<open>Math.round((100 + 0) / 2) = 50\<close>; the mean over the reviewed cards only is 100.
\<close>

theorem averageSuccessRate_counterexample:
  "averageSuccessRate
     [updateReviewData 5 10 20 (newFlashcard 3 5 ''What is HOL?'' ''A logic'' ''logic'' 0),
      newFlashcard 3 5 ''What is FOL?'' ''A logic'' ''logic'' 0] = 50
   \<and> spec_averageSuccessRate
     [updateReviewData 5 10 20 (newFlashcard 3 5 ''What is HOL?'' ''A logic'' ''logic'' 0),
      newFlashcard 3 5 ''What is FOL?'' ''A logic'' ''logic'' 0] = 100
   \<and> averageSuccessRate
     [updateReviewData 5 10 20 (newFlashcard 3 5 ''What is HOL?'' ''A logic'' ''logic'' 0),
      newFlashcard 3 5 ''What is FOL?'' ''A logic'' ''logic'' 0]
     \<noteq> spec_averageSuccessRate
     [updateReviewData 5 10 20 (newFlashcard 3 5 ''What is HOL?'' ''A logic'' ''logic'' 0),
      newFlashcard 3 5 ''What is FOL?'' ''A logic'' ''logic'' 0]"
proof -
  let ?r = "updateReviewData 5 10 20 (newFlashcard 3 5 ''What is HOL?'' ''A logic'' ''logic'' 0)"
  let ?n = "newFlashcard 3 5 ''What is FOL?'' ''A logic'' ''logic'' 0"
  have t: "timesReviewed (stats ?r) = 1" "timesReviewed (stats ?n) = 0"
    by (simp_all add: updateReviewData_success Let_def newFlashcard_def)
  have sr: "successRate ?r = 100"
    by (simp add: successRate_def Math_round_def updateReviewData_success Let_def
          newFlashcard_def fl_1 fl_100)
  have sn: "successRate ?n = 0"
    by (simp add: successRate_never_reviewed t)
  have a: "averageSuccessRate [?r, ?n] = 50"
    by (simp add: averageSuccessRate_def Let_def sr sn Math_round_def)
  have b: "spec_averageSuccessRate [?r, ?n] = 100"
    by (simp add: spec_averageSuccessRate_def Let_def t sr Math_round_def)
  show ?thesis unfolding a b by simp
qed

text \<open>
  C6, amended. For every non-empty list of cards whose \<open>timesReviewed\<close> is never
  negative, \<open>averageSuccessRate\<close> is the sum of \<open>successRate\<close> over the cards with
  \<open>timesReviewed > 0\<close> divided by the number of all the cards of the list, rounded to
  the nearest integer: a card never reviewed counts with rate 0. It is 0 when no card
  has been reviewed, and it is the mean over the reviewed cards when every card has
  been reviewed.
\<close>

theorem averageSuccessRate_over_all_cards:
  assumes "flashcards \<noteq> []"
    and "\<forall>fc \<in> set flashcards. 0 \<le> timesReviewed (stats fc)"
  shows "averageSuccessRate flashcards
           = Math_round (sum_list (map successRate
                           (filter (\<lambda>fc. timesReviewed (stats fc) > 0) flashcards))
                         / real (length flashcards))
       \<and> ((\<forall>fc \<in> set flashcards. timesReviewed (stats fc) = 0)
            \<longrightarrow> averageSuccessRate flashcards = 0)
       \<and> ((\<forall>fc \<in> set flashcards. timesReviewed (stats fc) > 0)
            \<longrightarrow> averageSuccessRate flashcards = spec_averageSuccessRate flashcards)"
proof (intro conjI impI)
  show m: "averageSuccessRate flashcards
           = Math_round (sum_list (map successRate
                           (filter (\<lambda>fc. timesReviewed (stats fc) > 0) flashcards))
                         / real (length flashcards))"
    using assms by (simp add: averageSuccessRate_sum_list sum_successRate_reviewed)
  {
    assume "\<forall>fc \<in> set flashcards. timesReviewed (stats fc) = 0"
    then have "filter (\<lambda>fc. timesReviewed (stats fc) > 0) flashcards = []"
      by (simp add: filter_empty_conv)
    with m show "averageSuccessRate flashcards = 0"
      by (simp add: Math_round_def)
  }
  {
    assume "\<forall>fc \<in> set flashcards. timesReviewed (stats fc) > 0"
    then have "filter (\<lambda>fc. timesReviewed (stats fc) > 0) flashcards = flashcards"
      by (simp add: filter_id_conv)
    with m assms(1) show "averageSuccessRate flashcards = spec_averageSuccessRate flashcards"
      by (simp add: spec_averageSuccessRate_def Let_def)
  }
qed

theorem averageSuccessRate_over_all_cards_witness:
  "averageSuccessRate
     [updateReviewData 5 10 20 (newFlashcard 3 5 ''What is HOL?'' ''A logic'' ''logic'' 0),
      newFlashcard 3 5 ''What is FOL?'' ''A logic'' ''logic'' 0] = 50
   \<and> averageSuccessRate
     [newFlashcard 3 5 ''What is HOL?'' ''A logic'' ''logic'' 0,
      newFlashcard 3 5 ''What is FOL?'' ''A logic'' ''logic'' 0] = 0
   \<and> averageSuccessRate
     [updateReviewData 5 10 20 (newFlashcard 3 5 ''What is HOL?'' ''A logic'' ''logic'' 0)]
     = spec_averageSuccessRate
     [updateReviewData 5 10 20 (newFlashcard 3 5 ''What is HOL?'' ''A logic'' ''logic'' 0)]"
proof -
  let ?h = "newFlashcard 3 5 ''What is HOL?'' ''A logic'' ''logic'' 0"
  let ?r = "updateReviewData 5 10 20 ?h"
  let ?n = "newFlashcard 3 5 ''What is FOL?'' ''A logic'' ''logic'' 0"
  have t: "timesReviewed (stats ?r) = 1" "timesReviewed (stats ?n) = 0"
    "timesReviewed (stats ?h) = 0"
    by (simp_all add: updateReviewData_success Let_def newFlashcard_def)
  have sr: "successRate ?r = 100"
    by (simp add: successRate_def Math_round_def updateReviewData_success Let_def
          newFlashcard_def fl_1 fl_100)
  have m: "Math_round 50 = 50"
    by (simp add: Math_round_def)
  have ne: "[?r, ?n] \<noteq> []" "[?h, ?n] \<noteq> []" "[?r] \<noteq> []" by simp_all
  have p1: "\<forall>fc \<in> set [?r, ?n]. 0 \<le> timesReviewed (stats fc)"
    and p2: "\<forall>fc \<in> set [?h, ?n]. 0 \<le> timesReviewed (stats fc)"
    and p3: "\<forall>fc \<in> set [?r]. 0 \<le> timesReviewed (stats fc)"
    by (simp_all add: t)
  have z: "\<forall>fc \<in> set [?h, ?n]. timesReviewed (stats fc) = 0"
    and a: "\<forall>fc \<in> set [?r]. timesReviewed (stats fc) > 0"
    by (simp_all add: t)
  from averageSuccessRate_over_all_cards [OF ne(1) p1]
  have "averageSuccessRate [?r, ?n] = 50"
    by (simp add: t sr m)
  moreover from averageSuccessRate_over_all_cards [OF ne(2) p2] z
  have "averageSuccessRate [?h, ?n] = 0"
    by blast
  moreover from averageSuccessRate_over_all_cards [OF ne(3) p3] a
  have "averageSuccessRate [?r] = spec_averageSuccessRate [?r]"
    by blast
  ultimately show ?thesis by simp
qed

end
